theory Spec2Isabelle
  imports Main
begin

section \<open>JavaScript values\<close>

text \<open>
  The values that reach push.js through \<open>title\<close>, \<open>options\<close> and the host's permission
  signals. \<open>JFun n\<close> is a user function (identified by \<open>n\<close>); \<open>JObj\<close> is a plain object
  literal given by its property table (the first binding of a key is the one read).
  Numbers are integers here: no claim depends on fractions or NaN.
\<close>

datatype jsval =
    JUndefined
  | JNull
  | JBool bool
  | JNum int
  | JStr string
  | JFun nat
  | JObj "(string \<times> jsval) list"

text \<open>JavaScript's ToBoolean, as used by \<open>if\<close>, \<open>&&\<close>, \<open>||\<close> and \<open>?:\<close>.\<close>

fun truthy :: "jsval \<Rightarrow> bool" where
  "truthy JUndefined = False"
| "truthy JNull = False"
| "truthy (JBool b) = b"
| "truthy (JNum n) = (n \<noteq> 0)"
| "truthy (JStr s) = (s \<noteq> [])"
| "truthy (JFun f) = True"
| "truthy (JObj ps) = True"

text \<open>\<open>obj.constructor === String\<close> and \<open>obj.constructor === Function\<close> for a truthy \<open>obj\<close>.\<close>

fun constructor_is_String :: "jsval \<Rightarrow> bool" where
  "constructor_is_String (JStr s) = True"
| "constructor_is_String v = False"

fun constructor_is_Function :: "jsval \<Rightarrow> bool" where
  "constructor_is_Function (JFun f) = True"
| "constructor_is_Function v = False"

text \<open>
  \<^verbatim>\<open>isUndefined = function (obj) { return obj === undefined; }\<close>
  \<^verbatim>\<open>isString    = function (obj) { return obj && obj.constructor === String; }\<close>
  \<^verbatim>\<open>isFunction  = function (obj) { return obj && obj.constructor === Function; }\<close>
  The last two are only ever used as conditions, so the model returns the truth value of
  the result: a falsy \<open>obj\<close> (the empty string included) makes \<open>&&\<close> stop at \<open>obj\<close>.
\<close>

definition isUndefined :: "jsval \<Rightarrow> bool" where
  "isUndefined obj = (obj = JUndefined)"

definition isString :: "jsval \<Rightarrow> bool" where
  "isString obj = (truthy obj \<and> constructor_is_String obj)"

definition isFunction :: "jsval \<Rightarrow> bool" where
  "isFunction obj = (truthy obj \<and> constructor_is_Function obj)"

section \<open>Options, host environment, observable events\<close>

text \<open>The \<open>options\<close> argument: the fields push.js reads (an absent field is \<open>JUndefined\<close>).\<close>

record options =
  icon :: jsval
  body :: jsval
  tag :: jsval
  timeout :: jsval
  onShow :: jsval
  onError :: jsval
  onClick :: jsval
  onClose :: jsval

text \<open>
  A native notification object, by the members push.js looks for on it. A member that is
  present is callable. The object literal \<^verbatim>\<open>{}\<close> of the site-mode branch has none.
\<close>

record native =
  has_close :: bool
  has_cancel :: bool
  has_addEventListener :: bool
  has_show :: bool

definition empty_object :: native where
  "empty_object = \<lparr>has_close = False, has_cancel = False, has_addEventListener = False, has_show = False\<rparr>"

text \<open>What a host function does when called: return a value or throw.\<close>

datatype call_result = Returns jsval | Throws

text \<open>
  The host objects push.js probes. An object that is absent (or falsy) is \<open>None\<close>.
  \<^item> \<open>w.Notification\<close>: its \<open>permissionLevel\<close> and \<open>permission\<close> properties, whether it has
    \<open>requestPermission\<close>, and the shape of the objects \<open>new w.Notification\<close> yields;
  \<^item> \<open>w.webkitNotifications\<close>: \<open>checkPermission\<close> (absent, or a function returning an
    integer), whether it has \<open>requestPermission\<close>, the objects \<open>createNotification\<close> yields;
  \<^item> \<open>navigator.mozNotification\<close>: the objects \<open>createNotification\<close> yields;
  \<^item> \<open>w.external\<close>: \<open>msIsSiteMode\<close> (absent, or a function with the given behaviour); the
    three \<open>msSiteMode...\<close> overlay functions are callable whenever the object exists.
  The identifier \<open>win\<close> is used by the source but declared nowhere in it: it resolves in
  the global scope of the host, so the host says whether it is bound (and to which window
  object) or unbound (\<open>None\<close>: reading it raises a ReferenceError).
\<close>

record notification_api =
  permissionLevel :: jsval
  permission :: jsval
  has_requestPermission :: bool
  constructs :: native

record webkit_api =
  checkPermission :: "int option"
  webkit_has_requestPermission :: bool
  webkit_creates :: native

record moz_api =
  moz_creates :: native

record external_api =
  msIsSiteMode :: "call_result option"

record window_obj =
  Notification :: "notification_api option"
  webkitNotifications :: "webkit_api option"
  external :: "external_api option"

record navigator_obj =
  mozNotification :: "moz_api option"

record host =
  w :: window_obj
  win :: "window_obj option"
  navigator :: navigator_obj

text \<open>
  A function value handed to \<open>Permission.request\<close>: the closure
  \<^verbatim>\<open>function () { create_callback(title, options); }\<close> built by \<open>create\<close>, a value
  supplied by the caller, or the empty function \<^verbatim>\<open>function () {}\<close>.
\<close>

datatype callback = Create_closure jsval options | Given jsval | Empty_fn

text \<open>An event listener: the auto-close listener of \<open>create_callback\<close>, or a user value.\<close>

datatype listener = AutoClose jsval | Handler jsval

text \<open>The calls push.js makes on the host, in the order it makes them.\<close>

datatype event =
    Console_error string
  | Call_msIsSiteMode
  | Call_checkPermission
  | Webkit_requestPermission callback
  | Notification_requestPermission callback
  | New_Notification jsval jsval jsval jsval
  | Webkit_createNotification jsval jsval jsval
  | Moz_createNotification jsval jsval jsval
  | Native_show
  | SiteModeClearIconOverlay
  | SiteModeSetIconOverlay jsval jsval
  | SiteModeActivate
  | Native_close
  | Native_cancel
  | AddEventListener string listener
  | SetTimeout jsval
  | Invoke_user jsval jsval

section \<open>Program state, exceptions, sequencing\<close>

datatype error = TypeError | ReferenceError | HostError

text \<open>
  The mutable state: the \<open>isSupported\<close> property of the Push object; the variables
  \<open>notification\<close> and \<open>wrapper\<close>, which \<open>create_callback\<close> assigns without declaring (the
  \<open>var\<close> of \<open>self.create\<close> is in another function, and the factory function is not in
  strict mode), so they are globals, unbound (\<open>None\<close>, \<open>False\<close>) until first assigned; and
  the log of host calls.
\<close>

record push_state =
  isSupported :: bool
  notification :: "native option"
  wrapper :: bool
  trace :: "event list"

type_synonym 'a prog = "push_state \<Rightarrow> push_state \<times> (error + 'a)"

definition ret :: "'a \<Rightarrow> 'a prog" where
  "ret x s = (s, Inr x)"

definition raise :: "error \<Rightarrow> 'a prog" where
  "raise e s = (s, Inl e)"

definition andThen :: "'a prog \<Rightarrow> ('a \<Rightarrow> 'b prog) \<Rightarrow> 'b prog" where
  "andThen m f s = (case m s of (s', Inl e) \<Rightarrow> (s', Inl e) | (s', Inr x) \<Rightarrow> f x s')"

definition thenDo :: "unit prog \<Rightarrow> 'b prog \<Rightarrow> 'b prog" where
  "thenDo m n = andThen m (\<lambda>u. n)"

definition try_catch :: "'a prog \<Rightarrow> 'a prog \<Rightarrow> 'a prog" where
  "try_catch m handler s = (case m s of (s', Inl e) \<Rightarrow> handler s' | (s', Inr x) \<Rightarrow> (s', Inr x))"

definition emit :: "event \<Rightarrow> unit prog" where
  "emit ev s = (s\<lparr>trace := trace s @ [ev]\<rparr>, Inr ())"

text \<open>
  Property read \<open>obj.name\<close> on a value of \<open>options\<close>, for the names \<open>x32\<close> and \<open>x16\<close>:
  a TypeError on \<open>undefined\<close> and \<open>null\<close>, the table's entry on an object, \<open>undefined\<close>
  on every other value (strings, numbers, booleans and functions have no such property).
\<close>

fun get_prop :: "jsval \<Rightarrow> string \<Rightarrow> jsval prog" where
  "get_prop JUndefined name = raise TypeError"
| "get_prop JNull name = raise TypeError"
| "get_prop (JObj ps) name = ret (case map_of ps name of None \<Rightarrow> JUndefined | Some v \<Rightarrow> v)"
| "get_prop v name = ret JUndefined"

text \<open>Reading the global identifiers \<open>win\<close> and \<open>notification\<close>.\<close>

definition read_win :: "host \<Rightarrow> window_obj prog" where
  "read_win h = (case win h of None \<Rightarrow> raise ReferenceError | Some wi \<Rightarrow> ret wi)"

definition read_notification :: "native prog" where
  "read_notification s = (case notification s of None \<Rightarrow> raise ReferenceError s | Some n \<Rightarrow> ret n s)"

definition assign_notification :: "native \<Rightarrow> unit prog" where
  "assign_notification n s = (s\<lparr>notification := Some n\<rparr>, Inr ())"

definition assign_wrapper :: "unit prog" where
  "assign_wrapper s = (s\<lparr>wrapper := True\<rparr>, Inr ())"

text \<open>The call \<open>external.msIsSiteMode()\<close>.\<close>

definition call_msIsSiteMode :: "external_api \<Rightarrow> jsval prog" where
  "call_msIsSiteMode e =
     (case msIsSiteMode e of
        None \<Rightarrow> raise TypeError
      | Some Throws \<Rightarrow> thenDo (emit Call_msIsSiteMode) (raise HostError)
      | Some (Returns v) \<Rightarrow> thenDo (emit Call_msIsSiteMode) (ret v))"

section \<open>Capability probe: \<open>self.isSupported\<close>\<close>

text \<open>
  The probe (lines 255-279) is the one place where push.js reads the host inside
  \<open>try\<close>/\<open>catch\<close>, so here each of the four reads is modelled by what it does: it yields
  the property's value (\<open>None\<close> when absent or falsy), or it throws: a guarded property,
  or, for \<open>navigator.mozNotification\<close>, an undeclared \<open>navigator\<close> (a ReferenceError).
  Everywhere else push.js reads these properties with no handler around the read; the
  functions of the later sections are modelled on a \<open>host\<close>, whose reads all yield, and
  \<open>reads_of\<close> is the probe's view of such a host.
\<close>

datatype 'a read_result = Yields 'a | Fails error

record probe_host =
  read_Notification :: "notification_api option read_result"
  read_webkitNotifications :: "webkit_api option read_result"
  read_mozNotification :: "moz_api option read_result"
  read_external :: "external_api option read_result"

definition reads_of :: "host \<Rightarrow> probe_host" where
  "reads_of h =
     \<lparr>read_Notification = Yields (Notification (w h)),
      read_webkitNotifications = Yields (webkitNotifications (w h)),
      read_mozNotification = Yields (mozNotification (navigator h)),
      read_external = Yields (external (w h))\<rparr>"

definition read_value :: "'a read_result \<Rightarrow> 'a prog" where
  "read_value r = (case r of Yields v \<Rightarrow> ret v | Fails e \<Rightarrow> raise e)"

text \<open>
  The four operands of the \<open>||\<close> chain (lines 264-273), each as the truth value it has
  in that chain when its evaluation returns.
\<close>

definition detect_Notification :: "probe_host \<Rightarrow> bool prog" where
  "detect_Notification p = andThen (read_value (read_Notification p)) (\<lambda>v. ret (v \<noteq> None))"

definition detect_webkitNotifications :: "probe_host \<Rightarrow> bool prog" where
  "detect_webkitNotifications p =
     andThen (read_value (read_webkitNotifications p)) (\<lambda>v. ret (v \<noteq> None))"

definition detect_mozNotification :: "probe_host \<Rightarrow> bool prog" where
  "detect_mozNotification p = andThen (read_value (read_mozNotification p)) (\<lambda>v. ret (v \<noteq> None))"

definition detect_msIsSiteMode :: "probe_host \<Rightarrow> bool prog" where
  "detect_msIsSiteMode p =
     andThen (read_value (read_external p)) (\<lambda>x.
       case x of
         None \<Rightarrow> ret False
       | Some e \<Rightarrow> andThen (call_msIsSiteMode e) (\<lambda>v. ret (v \<noteq> JUndefined)))"

text \<open>Short-circuit \<open>||\<close> on truth values.\<close>

definition or_else :: "bool prog \<Rightarrow> bool prog \<Rightarrow> bool prog" where
  "or_else a b = andThen a (\<lambda>x. if x then ret True else b)"

definition probe :: "probe_host \<Rightarrow> bool prog" where
  "probe p =
     or_else (detect_Notification p)
       (or_else (detect_webkitNotifications p)
          (or_else (detect_mozNotification p) (detect_msIsSiteMode p)))"

text \<open>
  \<^verbatim>\<open>var isSupported = false; try { isSupported = !!(...); } catch (e) {} return isSupported;\<close>
\<close>

definition isSupported_iife :: "probe_host \<Rightarrow> bool prog" where
  "isSupported_iife p = try_catch (probe p) (ret False)"

definition initial_state :: push_state where
  "initial_state = \<lparr>isSupported = False, notification = None, wrapper = False, trace = []\<rparr>"

text \<open>
  The constructor \<open>new Push()\<close>: the only statement with an effect sets \<open>self.isSupported\<close>.
  \<open>Push\<close> is the constructor on a host whose reads all yield.
\<close>

definition Push_on :: "probe_host \<Rightarrow> push_state \<times> (error + unit)" where
  "Push_on p = andThen (isSupported_iife p) (\<lambda>b s. (s\<lparr>isSupported := b\<rparr>, Inr ())) initial_state"

definition Push :: "host \<Rightarrow> push_state \<times> (error + unit)" where
  "Push h = Push_on (reads_of h)"

text \<open>
  A detector matches when it evaluates, without throwing, to a truthy value; it throws
  when its evaluation raises an exception.
\<close>

definition matches :: "bool prog \<Rightarrow> push_state \<Rightarrow> bool" where
  "matches d s = (snd (d s) = Inr True)"

definition throws :: "bool prog \<Rightarrow> push_state \<Rightarrow> bool" where
  "throws d s = (case snd (d s) of Inl e \<Rightarrow> True | Inr b \<Rightarrow> False)"

section \<open>Permissions\<close>

definition GRANTED :: jsval where "GRANTED = JStr ''granted''"
definition DEFAULT :: jsval where "DEFAULT = JStr ''default''"
definition DENIED :: jsval where "DENIED = JStr ''denied''"

text \<open>\<^verbatim>\<open>Permissions = [Permission.GRANTED, Permission.DEFAULT, Permission.DENIED]\<close>\<close>

definition Permissions :: "jsval list" where
  "Permissions = [GRANTED, DEFAULT, DENIED]"

text \<open>
  Reading an array: \<open>xs[i]\<close> for an integer \<open>i\<close> is \<open>undefined\<close> out of range, and
  \<open>xs.name\<close> is \<open>undefined\<close> for every name but \<open>length\<close>.
\<close>

definition array_index :: "jsval list \<Rightarrow> int \<Rightarrow> jsval" where
  "array_index xs i = (if 0 \<le> i \<and> i < int (length xs) then xs ! nat i else JUndefined)"

definition array_prop :: "jsval list \<Rightarrow> string \<Rightarrow> jsval" where
  "array_prop xs name = (if name = ''length'' then JNum (int (length xs)) else JUndefined)"

text \<open>
  The values of \<^verbatim>\<open>w.Notification && w.Notification.permissionLevel\<close>,
  \<^verbatim>\<open>w.Notification && w.Notification.permission\<close> (up to truthiness; where truthy, the
  value is the property's) and of
  \<^verbatim>\<open>w.webkitNotifications && w.webkitNotifications.checkPermission\<close>.
\<close>

definition Notification_permissionLevel :: "host \<Rightarrow> jsval" where
  "Notification_permissionLevel h =
     (case Notification (w h) of None \<Rightarrow> JUndefined | Some n \<Rightarrow> permissionLevel n)"

definition Notification_permission :: "host \<Rightarrow> jsval" where
  "Notification_permission h =
     (case Notification (w h) of None \<Rightarrow> JUndefined | Some n \<Rightarrow> permission n)"

definition webkit_checkPermission :: "host \<Rightarrow> int option" where
  "webkit_checkPermission h =
     (case webkitNotifications (w h) of None \<Rightarrow> None | Some wk \<Rightarrow> checkPermission wk)"

text \<open>\<open>self.Permission.get\<close> (lines 215-245).\<close>

definition Permission_get :: "host \<Rightarrow> jsval prog" where
  "Permission_get h s =
     (if \<not> isSupported s then ret JUndefined s
      else if truthy (Notification_permissionLevel h) then ret (Notification_permissionLevel h) s
      else case webkit_checkPermission h of
        Some i \<Rightarrow> thenDo (emit Call_checkPermission) (ret (array_index Permissions i)) s
      | None \<Rightarrow>
         (if truthy (Notification_permission h) then ret (Notification_permission h) s
          else if mozNotification (navigator h) \<noteq> None then ret (array_prop Permissions ''GRANTED'') s
          else case external (w h) of
            None \<Rightarrow> ret JUndefined s
          | Some e \<Rightarrow>
              andThen (call_msIsSiteMode e) (\<lambda>v.
                if v \<noteq> JUndefined
                then andThen (call_msIsSiteMode e) (\<lambda>v'. ret (if truthy v' then GRANTED else DEFAULT))
                else ret JUndefined) s))"

text \<open>\<^verbatim>\<open>callback = isFunction(callback) ? callback : function () {};\<close>\<close>

fun callable :: "callback \<Rightarrow> bool" where
  "callable (Create_closure t opts) = True"
| "callable (Given v) = isFunction v"
| "callable Empty_fn = True"

definition normalise_callback :: "callback \<Rightarrow> callback" where
  "normalise_callback cb = (if callable cb then cb else Empty_fn)"

text \<open>\<open>self.Permission.request\<close> (lines 192-209).\<close>

definition Permission_request :: "host \<Rightarrow> callback \<Rightarrow> unit prog" where
  "Permission_request h cb s =
     (if \<not> isSupported s then ret () s
      else case webkitNotifications (w h) of
        Some wk \<Rightarrow>
          (if checkPermission wk \<noteq> None
           then (if webkit_has_requestPermission wk
                 then emit (Webkit_requestPermission (normalise_callback cb)) s
                 else raise TypeError s)
           else (case Notification (w h) of
                   None \<Rightarrow> ret () s
                 | Some n \<Rightarrow> if has_requestPermission n
                     then emit (Notification_requestPermission (normalise_callback cb)) s
                     else ret () s))
      | None \<Rightarrow>
          (case Notification (w h) of
             None \<Rightarrow> ret () s
           | Some n \<Rightarrow> if has_requestPermission n
               then emit (Notification_requestPermission (normalise_callback cb)) s
               else ret () s))"

section \<open>\<open>create_callback\<close>: display, wrapper, lifecycle binding\<close>

text \<open>
  \<^verbatim>\<open>(isString(options.icon) || isUndefined(options.icon)) ? options.icon : options.icon.x32\<close>
  and the same expression with \<open>x16\<close>.
\<close>

definition resolve_icon :: "jsval \<Rightarrow> string \<Rightarrow> jsval prog" where
  "resolve_icon ic px = (if isString ic \<or> isUndefined ic then ret ic else get_prop ic px)"

text \<open>\<open>notification.show()\<close>.\<close>

definition native_show :: "native \<Rightarrow> unit prog" where
  "native_show n = (if has_show n then emit Native_show else raise TypeError)"

text \<open>The four-way branch that builds the notification (lines 70-113).\<close>

definition display :: "host \<Rightarrow> jsval \<Rightarrow> options \<Rightarrow> unit prog" where
  "display h title opts =
     (case Notification (w h) of
        Some n \<Rightarrow>
          andThen (resolve_icon (icon opts) ''x32'') (\<lambda>ic.
          thenDo (emit (New_Notification title ic (body opts) (tag opts)))
                 (assign_notification (constructs n)))
      | None \<Rightarrow>
     (case webkitNotifications (w h) of
        Some wk0 \<Rightarrow>
          andThen (read_win h) (\<lambda>wi.
            case webkitNotifications wi of
              None \<Rightarrow> raise TypeError
            | Some wk \<Rightarrow>
                thenDo (emit (Webkit_createNotification (icon opts) title (body opts)))
               (thenDo (assign_notification (webkit_creates wk))
                       (native_show (webkit_creates wk))))
      | None \<Rightarrow>
     (case mozNotification (navigator h) of
        Some m \<Rightarrow>
          thenDo (emit (Moz_createNotification title (body opts) (icon opts)))
         (thenDo (assign_notification (moz_creates m))
                 (native_show (moz_creates m)))
      | None \<Rightarrow>
          andThen (read_win h) (\<lambda>wi.
            case external wi of
              None \<Rightarrow> ret ()
            | Some e \<Rightarrow>
                andThen (call_msIsSiteMode e) (\<lambda>v.
                  if truthy v
                  then (case external (w h) of
                          None \<Rightarrow> raise TypeError
                        | Some e' \<Rightarrow>
                            thenDo (emit SiteModeClearIconOverlay)
                           (andThen (resolve_icon (icon opts) ''x16'') (\<lambda>ic.
                            thenDo (emit (SiteModeSetIconOverlay ic title))
                           (thenDo (emit SiteModeActivate)
                                   (assign_notification empty_object)))))
                  else ret ())))))"

text \<open>\<open>wrapper.close\<close> (lines 118-133). It reads the global \<open>notification\<close> when called.\<close>

definition wrapper_close :: "host \<Rightarrow> unit prog" where
  "wrapper_close h =
     andThen read_notification (\<lambda>n.
       if has_close n then emit Native_close
       else if has_cancel n then emit Native_cancel
       else case external (w h) of
         None \<Rightarrow> ret ()
       | Some e0 \<Rightarrow>
           andThen (read_win h) (\<lambda>wi.
             case external wi of
               None \<Rightarrow> raise TypeError
             | Some e \<Rightarrow> if msIsSiteMode e \<noteq> None then emit SiteModeClearIconOverlay else ret ()))"

text \<open>
  The auto-close listener \<^verbatim>\<open>function () { setTimeout(function () { wrapper.close(); }, options.timeout); }\<close>
  when the host fires it, and the timer function when the host runs it.
\<close>

definition autoclose_listener :: "jsval \<Rightarrow> unit prog" where
  "autoclose_listener t = emit (SetTimeout t)"

definition timer_fired :: "host \<Rightarrow> unit prog" where
  "timer_fired h s = (if wrapper s then wrapper_close h s else raise ReferenceError s)"

text \<open>The auto-close registration (lines 138-150).\<close>

definition bind_timeout :: "options \<Rightarrow> unit prog" where
  "bind_timeout opts =
     andThen read_notification (\<lambda>n.
       if has_addEventListener n \<and> truthy (timeout opts)
       then emit (AddEventListener ''show'' (AutoClose (timeout opts)))
       else ret ())"

text \<open>\<open>notification.addEventListener(name, f)\<close>.\<close>

definition addEventListener :: "string \<Rightarrow> jsval \<Rightarrow> unit prog" where
  "addEventListener name f =
     andThen read_notification (\<lambda>n.
       if has_addEventListener n then emit (AddEventListener name (Handler f)) else raise TypeError)"

text \<open>The callback registrations (lines 153-165).\<close>

definition bind_callbacks :: "options \<Rightarrow> unit prog" where
  "bind_callbacks opts =
     thenDo (if isFunction (onShow opts) then addEventListener ''show'' (onShow opts) else ret ())
    (thenDo (if isFunction (onError opts) then addEventListener ''error'' (onError opts) else ret ())
    (thenDo (if isFunction (onClick opts) then addEventListener ''click'' (onClick opts) else ret ())
            (if isFunction (onClose opts)
             then thenDo (addEventListener ''close'' (onClose opts))
                         (addEventListener ''cancel'' (onClose opts))
             else ret ())))"

definition create_callback :: "host \<Rightarrow> jsval \<Rightarrow> options \<Rightarrow> unit prog" where
  "create_callback h title opts =
     thenDo (display h title opts)
    (thenDo assign_wrapper
    (thenDo (bind_timeout opts)
            (bind_callbacks opts)))"

section \<open>The entry point \<open>self.create\<close>\<close>

text \<open>
  \<open>self.create\<close> (lines 286-304). Its two local variables are never used. The host is
  taken to have \<open>console.error\<close> and \<open>navigator\<close>, and \<open>options\<close> to be an object.
\<close>

definition create :: "host \<Rightarrow> jsval \<Rightarrow> options \<Rightarrow> unit prog" where
  "create h title opts s =
     (if \<not> isSupported s
      then emit (Console_error ''push.js is incompatible with self browser.'') s
      else andThen (Permission_get h) (\<lambda>p.
             if p \<noteq> GRANTED
             then Permission_request h (Create_closure title opts)
             else ret ()) s)"

text \<open>
  The host completing a permission request: it calls the function it was handed, with
  the user's answer as the argument. The closure of \<open>create\<close> takes no parameter.
\<close>

fun invoke_callback :: "host \<Rightarrow> callback \<Rightarrow> jsval \<Rightarrow> unit prog" where
  "invoke_callback h (Create_closure title opts) answer = create_callback h title opts"
| "invoke_callback h (Given f) answer = emit (Invoke_user f answer)"
| "invoke_callback h Empty_fn answer = ret ()"

section \<open>Concrete hosts\<close>

definition empty_window :: window_obj where
  "empty_window = \<lparr>Notification = None, webkitNotifications = None, external = None\<rparr>"

text \<open>A host with no notification capability at all, and no global \<open>win\<close>.\<close>

definition bare_host :: host where
  "bare_host = \<lparr>w = empty_window, win = None, navigator = \<lparr>mozNotification = None\<rparr>\<rparr>"

text \<open>A host whose \<open>window.external\<close> has no \<open>msIsSiteMode\<close>: calling it throws.\<close>

definition plain_external_host :: host where
  "plain_external_host = bare_host\<lparr>w := empty_window\<lparr>external := Some \<lparr>msIsSiteMode = None\<rparr>\<rparr>\<rparr>"

text \<open>A browser with the \<open>Notification\<close> constructor, whose \<open>permission\<close> property is \<open>p\<close>.\<close>

definition standard_native :: native where
  "standard_native = \<lparr>has_close = True, has_cancel = False, has_addEventListener = True, has_show = False\<rparr>"

definition modern_api :: "jsval \<Rightarrow> notification_api" where
  "modern_api p = \<lparr>permissionLevel = JUndefined, permission = p, has_requestPermission = True,
                   constructs = standard_native\<rparr>"

definition modern_host :: "jsval \<Rightarrow> host" where
  "modern_host p = bare_host\<lparr>w := empty_window\<lparr>Notification := Some (modern_api p)\<rparr>\<rparr>"

text \<open>Internet Explorer in site mode; \<open>win\<close> unbound, or bound to the window.\<close>

definition site_mode_window :: window_obj where
  "site_mode_window = empty_window\<lparr>external := Some \<lparr>msIsSiteMode = Some (Returns (JBool True))\<rparr>\<rparr>"

definition site_mode_host :: host where
  "site_mode_host = bare_host\<lparr>w := site_mode_window\<rparr>"

definition site_mode_host_win :: host where
  "site_mode_host_win = site_mode_host\<lparr>win := Some site_mode_window\<rparr>"

text \<open>Firefox Mobile: only \<open>navigator.mozNotification\<close>.\<close>

definition moz_native :: native where
  "moz_native = \<lparr>has_close = False, has_cancel = False, has_addEventListener = False, has_show = True\<rparr>"

definition moz_host :: host where
  "moz_host = bare_host\<lparr>navigator := \<lparr>mozNotification = Some \<lparr>moz_creates = moz_native\<rparr>\<rparr>\<rparr>"

definition supported_state :: push_state where
  "supported_state = initial_state\<lparr>isSupported := True\<rparr>"

definition no_options :: options where
  "no_options = \<lparr>icon = JUndefined, body = JUndefined, tag = JUndefined, timeout = JUndefined,
                 onShow = JUndefined, onError = JUndefined, onClick = JUndefined, onClose = JUndefined\<rparr>"

text \<open>A legacy webkit browser whose \<open>checkPermission()\<close> returns \<open>i\<close>.\<close>

definition webkit_native :: native where
  "webkit_native = \<lparr>has_close = False, has_cancel = True, has_addEventListener = True, has_show = True\<rparr>"

definition webkit_host :: "int \<Rightarrow> host" where
  "webkit_host i = bare_host\<lparr>w := empty_window\<lparr>webkitNotifications :=
      Some \<lparr>checkPermission = Some i, webkit_has_requestPermission = True,
            webkit_creates = webkit_native\<rparr>\<rparr>\<rparr>"

text \<open>The state after \<open>create_callback\<close> has shown a notification in a modern browser.\<close>

definition shown_state :: push_state where
  "shown_state = fst (create_callback (modern_host GRANTED) (JStr ''Hi'') no_options supported_state)"

definition sized_icon :: jsval where
  "sized_icon = JObj [(''x32'', JStr ''big.png''), (''x16'', JStr ''small.png'')]"

text \<open>An old Safari: \<open>Notification.permissionLevel\<close> is \<open>p\<close>, there is no \<open>permission\<close>.\<close>

definition safari_host :: "jsval \<Rightarrow> host" where
  "safari_host p = bare_host\<lparr>w := empty_window\<lparr>Notification :=
      Some \<lparr>permissionLevel = p, permission = JUndefined, has_requestPermission = True,
            constructs = standard_native\<rparr>\<rparr>\<rparr>"

text \<open>
  Two hosts as the probe sees them: a legacy webkit browser on which reading
  \<open>w.Notification\<close> throws, and Internet Explorer in site mode with no \<open>navigator\<close>
  declared.
\<close>

definition guarded_Notification_probe :: probe_host where
  "guarded_Notification_probe = (reads_of (webkit_host 0))\<lparr>read_Notification := Fails HostError\<rparr>"

definition undeclared_navigator_probe :: probe_host where
  "undeclared_navigator_probe = (reads_of site_mode_host)\<lparr>read_mozNotification := Fails ReferenceError\<rparr>"

section \<open>Vocabulary of the claims\<close>

text \<open>
  The \<open>||\<close> chain of the probe in terms of the host: the reads are taken in order, the
  first one that yields an object decides for true, and a read (or, last, the call of
  \<open>msIsSiteMode\<close>) that throws before that decides for false.
\<close>

definition first_match :: "probe_host \<Rightarrow> bool" where
  "first_match p =
     (case read_Notification p of
        Fails e \<Rightarrow> False
      | Yields (Some n) \<Rightarrow> True
      | Yields None \<Rightarrow>
     (case read_webkitNotifications p of
        Fails e \<Rightarrow> False
      | Yields (Some k) \<Rightarrow> True
      | Yields None \<Rightarrow>
     (case read_mozNotification p of
        Fails e \<Rightarrow> False
      | Yields (Some m) \<Rightarrow> True
      | Yields None \<Rightarrow>
     (case read_external p of
        Fails e \<Rightarrow> False
      | Yields None \<Rightarrow> False
      | Yields (Some x) \<Rightarrow>
          (case msIsSiteMode x of
             None \<Rightarrow> False
           | Some Throws \<Rightarrow> False
           | Some (Returns v) \<Rightarrow> v \<noteq> JUndefined)))))"

text \<open>The host has \<open>w.Notification.requestPermission\<close>, \<open>w.webkitNotifications.requestPermission\<close>.\<close>

definition Notification_has_requestPermission :: "host \<Rightarrow> bool" where
  "Notification_has_requestPermission h =
     (case Notification (w h) of None \<Rightarrow> False | Some n \<Rightarrow> has_requestPermission n)"

definition webkit_requestPermission_present :: "host \<Rightarrow> bool" where
  "webkit_requestPermission_present h =
     (case webkitNotifications (w h) of None \<Rightarrow> False | Some wk \<Rightarrow> webkit_has_requestPermission wk)"

text \<open>The native call a notification object's own members give \<open>wrapper.close\<close>.\<close>

definition close_calls :: "native \<Rightarrow> event list" where
  "close_calls n = (if has_close n then [Native_close] else if has_cancel n then [Native_cancel] else [])"

section \<open>Basic facts\<close>

lemmas prog_defs = ret_def raise_def andThen_def thenDo_def try_catch_def emit_def

lemmas host_defs = empty_window_def bare_host_def standard_native_def
  modern_api_def modern_host_def site_mode_window_def site_mode_host_def site_mode_host_win_def
  moz_native_def moz_host_def supported_state_def initial_state_def no_options_def
  webkit_native_def webkit_host_def GRANTED_def DEFAULT_def DENIED_def

lemmas probe_defs = Push_def Push_on_def isSupported_iife_def probe_def or_else_def
  detect_Notification_def detect_webkitNotifications_def detect_mozNotification_def
  detect_msIsSiteMode_def read_value_def reads_of_def

lemmas create_callback_defs = create_callback_def display_def resolve_icon_def isUndefined_def
  isString_def isFunction_def assign_notification_def assign_wrapper_def bind_timeout_def
  bind_callbacks_def addEventListener_def read_notification_def read_win_def native_show_def
  empty_object_def

lemma call_msIsSiteMode_cases:
  "call_msIsSiteMode e s =
     (case msIsSiteMode e of
        None \<Rightarrow> (s, Inl TypeError)
      | Some Throws \<Rightarrow> (s\<lparr>trace := trace s @ [Call_msIsSiteMode]\<rparr>, Inl HostError)
      | Some (Returns v) \<Rightarrow> (s\<lparr>trace := trace s @ [Call_msIsSiteMode]\<rparr>, Inr v))"
  by (simp add: call_msIsSiteMode_def prog_defs split: option.splits call_result.splits)

lemma isSupported_iife_result:
  "snd (isSupported_iife p s) = Inr (first_match p)"
  by (simp add: first_match_def call_msIsSiteMode_cases probe_defs prog_defs
      split: read_result.splits option.splits call_result.splits)

lemma first_match_chain:
  "first_match p =
     (matches (detect_Notification p) s
      \<or> (\<not> throws (detect_Notification p) s \<and> matches (detect_webkitNotifications p) s)
      \<or> (\<not> throws (detect_Notification p) s \<and> \<not> throws (detect_webkitNotifications p) s
           \<and> matches (detect_mozNotification p) s)
      \<or> (\<not> throws (detect_Notification p) s \<and> \<not> throws (detect_webkitNotifications p) s
           \<and> \<not> throws (detect_mozNotification p) s \<and> matches (detect_msIsSiteMode p) s))"
  by (simp add: first_match_def matches_def throws_def detect_Notification_def
        detect_webkitNotifications_def detect_mozNotification_def detect_msIsSiteMode_def
        read_value_def call_msIsSiteMode_cases prog_defs
      split: read_result.splits option.splits call_result.splits)

lemma Push_modern: "Push (modern_host p) = (supported_state, Inr ())"
  by (simp add: probe_defs prog_defs host_defs)

lemma Push_moz: "Push moz_host = (supported_state, Inr ())"
  by (simp add: probe_defs prog_defs host_defs)

lemma shown_state_eq:
  "shown_state = supported_state\<lparr>notification := Some standard_native, wrapper := True,
      trace := [New_Notification (JStr ''Hi'') JUndefined JUndefined JUndefined]\<rparr>"
  by (simp add: shown_state_def create_callback_defs prog_defs host_defs)

subsection \<open>\<open>wrapper.close\<close> where it cannot raise\<close>

lemma wrapper_close_no_raise:
  assumes "notification s = Some n" and "has_close n \<or> has_cancel n \<or> external (w h) = None"
  shows "wrapper_close h s = (s\<lparr>trace := trace s @ close_calls n\<rparr>, Inr ())"
  using assms
  by (auto simp add: wrapper_close_def read_notification_def close_calls_def prog_defs)

subsection \<open>\<open>Permission.get\<close>, signal by signal\<close>

lemma array_index_Permissions:
  "array_index Permissions i =
     (if i = 0 then GRANTED else if i = 1 then DEFAULT else if i = 2 then DENIED else JUndefined)"
proof -
  consider "i < 0" | "i = 0" | "i = 1" | "i = 2" | "2 < i" by arith
  then show ?thesis
    by cases (simp_all add: array_index_def Permissions_def)
qed

lemma Permission_get_unsupported:
  "\<not> isSupported s \<Longrightarrow> Permission_get h s = (s, Inr JUndefined)"
  by (simp add: Permission_get_def ret_def)

lemma Permission_get_permissionLevel:
  "isSupported s \<and> truthy (Notification_permissionLevel h) \<Longrightarrow>
     Permission_get h s = (s, Inr (Notification_permissionLevel h))"
  by (simp add: Permission_get_def ret_def)

lemma Permission_get_checkPermission:
  "isSupported s \<and> \<not> truthy (Notification_permissionLevel h) \<and> webkit_checkPermission h = Some i \<Longrightarrow>
     Permission_get h s =
       (s\<lparr>trace := trace s @ [Call_checkPermission]\<rparr>,
        Inr (if i = 0 then GRANTED else if i = 1 then DEFAULT
             else if i = 2 then DENIED else JUndefined))"
  by (simp add: Permission_get_def array_index_Permissions prog_defs)

lemma Permission_get_permission:
  "isSupported s \<and> \<not> truthy (Notification_permissionLevel h)
     \<and> webkit_checkPermission h = None \<and> truthy (Notification_permission h) \<Longrightarrow>
     Permission_get h s = (s, Inr (Notification_permission h))"
  by (simp add: Permission_get_def ret_def)

lemma Permission_get_site_mode:
  "isSupported s \<and> \<not> truthy (Notification_permissionLevel h)
     \<and> webkit_checkPermission h = None \<and> \<not> truthy (Notification_permission h)
     \<and> mozNotification (navigator h) = None \<Longrightarrow>
     Permission_get h s =
       (case external (w h) of
          None \<Rightarrow> (s, Inr JUndefined)
        | Some e \<Rightarrow>
           (case msIsSiteMode e of
              None \<Rightarrow> (s, Inl TypeError)
            | Some Throws \<Rightarrow> (s\<lparr>trace := trace s @ [Call_msIsSiteMode]\<rparr>, Inl HostError)
            | Some (Returns v) \<Rightarrow>
                if v = JUndefined
                then (s\<lparr>trace := trace s @ [Call_msIsSiteMode]\<rparr>, Inr JUndefined)
                else (s\<lparr>trace := trace s @ [Call_msIsSiteMode, Call_msIsSiteMode]\<rparr>,
                      Inr (if truthy v then GRANTED else DEFAULT))))"
  by (simp add: Permission_get_def call_msIsSiteMode_cases prog_defs
      split: option.splits call_result.splits)

section \<open>The capability probe (C7)\<close>

text \<open>
  C7, as the claim states it, fails: on a host where reading \<open>w.Notification\<close> throws and
  \<open>w.webkitNotifications\<close> exists, the \<open>webkitNotifications\<close> detector matches, yet the
  exception ends the whole \<open>||\<close> chain inside the one \<open>try\<close> block and \<open>isSupported\<close> is
  false. So it is, with an undeclared \<open>navigator\<close>, on a host in site mode.
\<close>

theorem isSupported_guarded_read_counterexample:
  "matches (detect_webkitNotifications guarded_Notification_probe) initial_state
   \<and> snd (isSupported_iife guarded_Notification_probe initial_state) = Inr False
   \<and> Push_on guarded_Notification_probe = (initial_state, Inr ())
   \<and> matches (detect_msIsSiteMode undeclared_navigator_probe) initial_state
   \<and> snd (isSupported_iife undeclared_navigator_probe initial_state) = Inr False"
  by (simp add: matches_def guarded_Notification_probe_def undeclared_navigator_probe_def
        call_msIsSiteMode_cases probe_defs prog_defs host_defs)

text \<open>
  C7, amended. \<open>isSupported\<close> is true if and only if, taking the four detector predicates
  in the order \<open>Notification\<close>, \<open>webkitNotifications\<close>, \<open>mozNotification\<close>, \<open>msIsSiteMode\<close>,
  one of them matches and none before it throws. It is false otherwise, that is when
  none matches and also when a predicate throws before any has matched, even if a later
  one would match; and the probe never propagates an exception. In terms of the host,
  this is \<open>first_match\<close>. The constructor stores the result in \<open>self.isSupported\<close> and does
  not throw either.
\<close>

theorem isSupported_first_match:
  "snd (isSupported_iife p s) = Inr (first_match p)
   \<and> first_match p =
       (matches (detect_Notification p) s
        \<or> (\<not> throws (detect_Notification p) s \<and> matches (detect_webkitNotifications p) s)
        \<or> (\<not> throws (detect_Notification p) s \<and> \<not> throws (detect_webkitNotifications p) s
             \<and> matches (detect_mozNotification p) s)
        \<or> (\<not> throws (detect_Notification p) s \<and> \<not> throws (detect_webkitNotifications p) s
             \<and> \<not> throws (detect_mozNotification p) s \<and> matches (detect_msIsSiteMode p) s))
   \<and> snd (Push_on p) = Inr ()
   \<and> isSupported (fst (Push_on p)) = first_match p"
proof -
  have chain: "first_match p =
       (matches (detect_Notification p) s
        \<or> (\<not> throws (detect_Notification p) s \<and> matches (detect_webkitNotifications p) s)
        \<or> (\<not> throws (detect_Notification p) s \<and> \<not> throws (detect_webkitNotifications p) s
             \<and> matches (detect_mozNotification p) s)
        \<or> (\<not> throws (detect_Notification p) s \<and> \<not> throws (detect_webkitNotifications p) s
             \<and> \<not> throws (detect_mozNotification p) s \<and> matches (detect_msIsSiteMode p) s))"
    by (rule first_match_chain)
  obtain s' where run: "isSupported_iife p initial_state = (s', Inr (first_match p))"
    using isSupported_iife_result [of p initial_state]
    by (cases "isSupported_iife p initial_state") simp
  have "Push_on p = (s'\<lparr>isSupported := first_match p\<rparr>, Inr ())"
    by (simp add: Push_on_def andThen_def run)
  then show ?thesis
    using chain by (simp add: isSupported_iife_result)
qed

text \<open>
  A legacy webkit browser: supported. A host whose \<open>external.msIsSiteMode\<close> is missing:
  the call throws, the exception is swallowed, the flag is false. A host in site mode
  with an undeclared \<open>navigator\<close>: the flag is false.
\<close>

theorem isSupported_first_match_witness:
  "snd (isSupported_iife (reads_of (webkit_host 0)) initial_state) = Inr True
   \<and> isSupported (fst (Push (webkit_host 0)))
   \<and> snd (probe (reads_of plain_external_host) initial_state) = Inl TypeError
   \<and> snd (isSupported_iife (reads_of plain_external_host) initial_state) = Inr False
   \<and> snd (Push plain_external_host) = Inr ()
   \<and> \<not> isSupported (fst (Push plain_external_host))
   \<and> snd (probe undeclared_navigator_probe initial_state) = Inl ReferenceError
   \<and> \<not> isSupported (fst (Push_on undeclared_navigator_probe))"
  using isSupported_first_match [of "reads_of (webkit_host 0)" initial_state]
    isSupported_first_match [of "reads_of plain_external_host" initial_state]
    isSupported_first_match [of undeclared_navigator_probe initial_state]
  by (simp add: first_match_def plain_external_host_def undeclared_navigator_probe_def
        call_msIsSiteMode_cases probe_defs prog_defs host_defs)

section \<open>The unsupported environment (C9)\<close>

text \<open>
  C9. When the environment is unsupported, \<open>create\<close> emits exactly one diagnostic message
  and does nothing else: no notification is constructed, no permission is queried or
  requested (the log grows by the diagnostic only), no exception is raised, and the rest
  of the state is unchanged.
\<close>

theorem create_unsupported:
  "\<not> isSupported s \<Longrightarrow>
     create h title opts s =
       (s\<lparr>trace := trace s @ [Console_error ''push.js is incompatible with self browser.'']\<rparr>, Inr ())"
  by (simp add: create_def emit_def)

theorem create_unsupported_witness:
  "\<not> isSupported (fst (Push bare_host))
   \<and> create bare_host (JStr ''Hi'') (no_options\<lparr>body := JStr ''there''\<rparr>) (fst (Push bare_host)) =
       (initial_state\<lparr>trace := [Console_error ''push.js is incompatible with self browser.'']\<rparr>, Inr ())"
proof -
  have p: "Push bare_host = (initial_state, Inr ())"
    by (simp add: probe_defs prog_defs host_defs)
  have u: "\<not> isSupported (fst (Push bare_host))"
    by (simp add: p initial_state_def)
  show ?thesis
    using u create_unsupported [OF u, of bare_host "JStr ''Hi''" "no_options\<lparr>body := JStr ''there''\<rparr>"]
    by (simp add: p initial_state_def)
qed

section \<open>Closing a notification (C10, C4)\<close>


text \<open>
  C4, as the claim states it, fails: \<open>wrapper.close\<close> keeps no record of having run, so a
  second call on a notification that exposes \<open>close\<close> invokes the native \<open>close\<close> again.
\<close>

theorem wrapper_close_twice_counterexample:
  "notification shown_state = Some standard_native
   \<and> thenDo (wrapper_close (modern_host GRANTED)) (wrapper_close (modern_host GRANTED)) shown_state =
       (shown_state\<lparr>trace := trace shown_state @ [Native_close, Native_close]\<rparr>, Inr ())"
  by (simp add: shown_state_eq wrapper_close_def read_notification_def prog_defs host_defs)

text \<open>
  C4, amended. Once a notification object exists, and it exposes \<open>close\<close> or \<open>cancel\<close> or
  the window has no \<open>external\<close> object, \<open>wrapper.close\<close> never raises an error and changes
  nothing but the log: with neither primitive it is a no-op, and otherwise every call
  invokes the object's primitive again, so that two calls make two native invocations
  (whether the second one has an effect is left to the host's primitive).
\<close>

theorem wrapper_close_repeated:
  assumes "notification s = Some n" and "has_close n \<or> has_cancel n \<or> external (w h) = None"
  shows "wrapper_close h s = (s\<lparr>trace := trace s @ close_calls n\<rparr>, Inr ())
       \<and> thenDo (wrapper_close h) (wrapper_close h) s =
           (s\<lparr>trace := trace s @ close_calls n @ close_calls n\<rparr>, Inr ())"
proof -
  let ?s1 = "s\<lparr>trace := trace s @ close_calls n\<rparr>"
  have one: "wrapper_close h s = (?s1, Inr ())"
    by (rule wrapper_close_no_raise [OF assms])
  have "notification ?s1 = Some n"
    using assms(1) by simp
  then have two: "wrapper_close h ?s1 = (?s1\<lparr>trace := trace ?s1 @ close_calls n\<rparr>, Inr ())"
    by (rule wrapper_close_no_raise [OF _ assms(2)])
  show ?thesis
    by (simp add: one two thenDo_def andThen_def)
qed

text \<open>A webkit notification (two calls, two \<open>cancel\<close>s) and a Firefox Mobile one, which has
  neither primitive (two calls, nothing happens).\<close>

theorem wrapper_close_repeated_witness:
  "thenDo (wrapper_close (webkit_host 0)) (wrapper_close (webkit_host 0))
      (supported_state\<lparr>notification := Some webkit_native\<rparr>) =
     (supported_state\<lparr>notification := Some webkit_native, trace := [Native_cancel, Native_cancel]\<rparr>,
      Inr ())
   \<and> thenDo (wrapper_close moz_host) (wrapper_close moz_host)
      (supported_state\<lparr>notification := Some moz_native\<rparr>) =
     (supported_state\<lparr>notification := Some moz_native\<rparr>, Inr ())"
proof -
  have a: "notification (supported_state\<lparr>notification := Some webkit_native\<rparr>) = Some webkit_native"
    by simp
  have b: "has_close webkit_native \<or> has_cancel webkit_native \<or> external (w (webkit_host 0)) = None"
    by (simp add: host_defs)
  have c: "notification (supported_state\<lparr>notification := Some moz_native\<rparr>) = Some moz_native"
    by simp
  have d: "has_close moz_native \<or> has_cancel moz_native \<or> external (w moz_host) = None"
    by (simp add: host_defs)
  show ?thesis
    using wrapper_close_repeated [OF a b] wrapper_close_repeated [OF c d]
    by (simp add: close_calls_def host_defs)
qed

section \<open>Requesting permission (C6)\<close>

text \<open>
  C6, as the claim states it, fails: on Firefox Mobile, a supported host whose variant
  treats the presence of the capability as the grant, \<open>Permission.request\<close> neither calls
  the callback nor hands it to the host. The log stays empty.
\<close>

theorem Permission_request_binary_variant_counterexample:
  "Push moz_host = (supported_state, Inr ())
   \<and> isSupported supported_state
   \<and> Permission_request moz_host (Given (JFun 0)) supported_state = (supported_state, Inr ())
   \<and> trace supported_state = []"
  unfolding Push_moz
  by (simp add: Permission_request_def prog_defs host_defs)

text \<open>
  C6, amended. On a supported host, \<open>Permission.request\<close> hands the callback to the host's
  request function exactly once, and never calls it itself: to
  \<open>webkitNotifications.requestPermission\<close> when \<open>webkitNotifications.checkPermission\<close>
  exists, and otherwise to \<open>Notification.requestPermission\<close> when that exists. On every
  other supported host (the binary variants) it does nothing, and the callback is not
  invoked. A callback that is not callable is replaced by the empty function, whose
  invocation does nothing.
\<close>

theorem Permission_request_delivery:
  "isSupported s \<Longrightarrow>
     (webkit_checkPermission h \<noteq> None \<and> webkit_requestPermission_present h \<longrightarrow>
        Permission_request h cb s =
          (s\<lparr>trace := trace s @ [Webkit_requestPermission (normalise_callback cb)]\<rparr>, Inr ()))
   \<and> (webkit_checkPermission h = None \<and> Notification_has_requestPermission h \<longrightarrow>
        Permission_request h cb s =
          (s\<lparr>trace := trace s @ [Notification_requestPermission (normalise_callback cb)]\<rparr>, Inr ()))
   \<and> (webkit_checkPermission h = None \<and> \<not> Notification_has_requestPermission h \<longrightarrow>
        Permission_request h cb s = (s, Inr ()))
   \<and> normalise_callback cb = (if callable cb then cb else Empty_fn)
   \<and> invoke_callback h Empty_fn answer s = (s, Inr ())"
  by (auto simp add: Permission_request_def webkit_checkPermission_def
        webkit_requestPermission_present_def Notification_has_requestPermission_def
        normalise_callback_def prog_defs split: option.splits)

theorem Permission_request_delivery_witness:
  "isSupported supported_state
   \<and> Permission_request (webkit_host 1) (Given (JFun 0)) supported_state =
       (supported_state\<lparr>trace := [Webkit_requestPermission (Given (JFun 0))]\<rparr>, Inr ())
   \<and> Permission_request (modern_host DEFAULT) (Given (JStr ''not a function'')) supported_state =
       (supported_state\<lparr>trace := [Notification_requestPermission Empty_fn]\<rparr>, Inr ())
   \<and> Permission_request site_mode_host (Given (JFun 0)) supported_state = (supported_state, Inr ())"
proof -
  have s: "isSupported supported_state"
    by (simp add: host_defs)
  show ?thesis
    using s
      Permission_request_delivery [OF s, of "webkit_host 1" "Given (JFun 0)" JUndefined]
      Permission_request_delivery [OF s, of "modern_host DEFAULT" "Given (JStr ''not a function'')" JUndefined]
      Permission_request_delivery [OF s, of site_mode_host "Given (JFun 0)" JUndefined]
    by (simp add: webkit_checkPermission_def webkit_requestPermission_present_def
          Notification_has_requestPermission_def normalise_callback_def isFunction_def host_defs)
qed

section \<open>Reading the permission (C3)\<close>

text \<open>
  C3, as the claim states it, fails: a supported host whose \<open>Notification\<close> carries no
  permission property gets \<open>undefined\<close>, not \<open>default\<close>; so does a webkit host whose
  \<open>checkPermission()\<close> returns an index outside \<open>0..2\<close>.
\<close>

theorem Permission_get_absent_signal_counterexample:
  "Push (modern_host JUndefined) = (supported_state, Inr ())
   \<and> isSupported supported_state
   \<and> Permission_get (modern_host JUndefined) supported_state = (supported_state, Inr JUndefined)
   \<and> Permission_get (webkit_host 3) supported_state =
       (supported_state\<lparr>trace := [Call_checkPermission]\<rparr>, Inr JUndefined)"
  unfolding Push_modern
  by (simp add: Permission_get_def Notification_permissionLevel_def
        Notification_permission_def webkit_checkPermission_def array_index_def Permissions_def
        prog_defs host_defs)

text \<open>
  C3, amended. \<open>Permission.get\<close> returns \<open>undefined\<close> when \<open>isSupported\<close> is false. When
  \<open>isSupported\<close> is true it returns, without validating it, the first permission signal
  the host exposes, in this fixed order:
  \<^item> \<open>Notification.permissionLevel\<close>, when truthy;
  \<^item> otherwise, when \<open>webkitNotifications.checkPermission\<close> exists, the entry of
    \<open>[granted, default, denied]\<close> at the index \<open>checkPermission()\<close> returns: \<open>granted\<close>,
    \<open>default\<close>, \<open>denied\<close> for 0, 1, 2 and \<open>undefined\<close> for any other index;
  \<^item> otherwise \<open>Notification.permission\<close>, when truthy;
  \<^item> otherwise, on a host without \<open>navigator.mozNotification\<close>: \<open>undefined\<close> when the
    window has no \<open>external\<close> object; and when it has one, \<open>msIsSiteMode()\<close> is called:
    a result other than \<open>undefined\<close> gives \<open>granted\<close> when truthy and \<open>default\<close> when
    falsy, the result \<open>undefined\<close> gives \<open>undefined\<close>, and a missing or throwing
    \<open>msIsSiteMode\<close> makes \<open>Permission.get\<close> throw.
  There is no fallback to \<open>default\<close>. In the first three cases \<open>Permission.get\<close> does
  not throw; in the last it throws exactly as stated.
\<close>

theorem Permission_get_signal:
  "(\<not> isSupported s \<longrightarrow> Permission_get h s = (s, Inr JUndefined))
   \<and> (isSupported s \<and> truthy (Notification_permissionLevel h) \<longrightarrow>
        Permission_get h s = (s, Inr (Notification_permissionLevel h)))
   \<and> (isSupported s \<and> \<not> truthy (Notification_permissionLevel h)
        \<and> webkit_checkPermission h = Some i \<longrightarrow>
        Permission_get h s =
          (s\<lparr>trace := trace s @ [Call_checkPermission]\<rparr>,
           Inr (if i = 0 then GRANTED else if i = 1 then DEFAULT
                else if i = 2 then DENIED else JUndefined)))
   \<and> (isSupported s \<and> \<not> truthy (Notification_permissionLevel h)
        \<and> webkit_checkPermission h = None \<and> truthy (Notification_permission h) \<longrightarrow>
        Permission_get h s = (s, Inr (Notification_permission h)))
   \<and> (isSupported s \<and> \<not> truthy (Notification_permissionLevel h)
        \<and> webkit_checkPermission h = None \<and> \<not> truthy (Notification_permission h)
        \<and> mozNotification (navigator h) = None \<longrightarrow>
        Permission_get h s =
          (case external (w h) of
             None \<Rightarrow> (s, Inr JUndefined)
           | Some e \<Rightarrow>
              (case msIsSiteMode e of
                 None \<Rightarrow> (s, Inl TypeError)
               | Some Throws \<Rightarrow> (s\<lparr>trace := trace s @ [Call_msIsSiteMode]\<rparr>, Inl HostError)
               | Some (Returns v) \<Rightarrow>
                   if v = JUndefined
                   then (s\<lparr>trace := trace s @ [Call_msIsSiteMode]\<rparr>, Inr JUndefined)
                   else (s\<lparr>trace := trace s @ [Call_msIsSiteMode, Call_msIsSiteMode]\<rparr>,
                         Inr (if truthy v then GRANTED else DEFAULT)))))"
  using Permission_get_unsupported [of s h] Permission_get_permissionLevel [of s h]
    Permission_get_checkPermission [of s h i] Permission_get_permission [of s h]
    Permission_get_site_mode [of s h]
  by blast

theorem Permission_get_signal_witness:
  "\<not> isSupported initial_state
   \<and> Permission_get bare_host initial_state = (initial_state, Inr JUndefined)
   \<and> isSupported supported_state
   \<and> Permission_get (safari_host DENIED) supported_state = (supported_state, Inr DENIED)
   \<and> Permission_get (webkit_host 1) supported_state =
       (supported_state\<lparr>trace := [Call_checkPermission]\<rparr>, Inr DEFAULT)
   \<and> Permission_get (modern_host GRANTED) supported_state = (supported_state, Inr GRANTED)
   \<and> Permission_get site_mode_host supported_state =
       (supported_state\<lparr>trace := [Call_msIsSiteMode, Call_msIsSiteMode]\<rparr>, Inr GRANTED)
   \<and> Permission_get (modern_host JUndefined) supported_state = (supported_state, Inr JUndefined)
   \<and> Permission_get plain_external_host supported_state = (supported_state, Inl TypeError)"
  using Permission_get_signal [of initial_state bare_host 0]
    Permission_get_signal [of supported_state "safari_host DENIED" 0]
    Permission_get_signal [of supported_state "webkit_host 1" 1]
    Permission_get_signal [of supported_state "modern_host GRANTED" 0]
    Permission_get_signal [of supported_state site_mode_host 0]
    Permission_get_signal [of supported_state "modern_host JUndefined" 0]
    Permission_get_signal [of supported_state plain_external_host 0]
  by (simp add: Permission_get_def Notification_permissionLevel_def Notification_permission_def
        webkit_checkPermission_def array_index_def Permissions_def call_msIsSiteMode_cases
        safari_host_def plain_external_host_def prog_defs host_defs)

section \<open>The entry point (C1, C2)\<close>

text \<open>
  C1, at a failing input. A modern browser whose permission is \<open>default\<close>: \<open>create\<close> issues
  one permission request and returns. The user denies; the host, whose permission is now
  \<open>denied\<close>, calls the function it was handed with that answer. The function ignores the
  answer and runs \<open>create_callback\<close>, which constructs the notification.
\<close>

theorem create_displays_after_denied:
  "fst (Push (modern_host DEFAULT)) = supported_state
   \<and> create (modern_host DEFAULT) (JStr ''Hi'') no_options supported_state =
       (supported_state\<lparr>trace := [Notification_requestPermission (Create_closure (JStr ''Hi'') no_options)]\<rparr>,
        Inr ())
   \<and> snd (Permission_get (modern_host DENIED) supported_state) = Inr DENIED
   \<and> invoke_callback (modern_host DENIED) (Create_closure (JStr ''Hi'') no_options) DENIED
        (supported_state\<lparr>trace := [Notification_requestPermission (Create_closure (JStr ''Hi'') no_options)]\<rparr>) =
       (supported_state\<lparr>notification := Some standard_native, wrapper := True,
          trace := [Notification_requestPermission (Create_closure (JStr ''Hi'') no_options),
                    New_Notification (JStr ''Hi'') JUndefined JUndefined JUndefined]\<rparr>,
        Inr ())"
  unfolding Push_modern fst_conv
  by (simp add: create_def Permission_get_def Permission_request_def
        Notification_permissionLevel_def Notification_permission_def webkit_checkPermission_def
        normalise_callback_def create_callback_defs prog_defs host_defs)

text \<open>
  C2, at a failing input. A modern browser whose permission is already \<open>granted\<close>:
  \<open>create\<close> reads the permission and returns. Nothing is displayed, nothing is bound, and
  the state is unchanged.
\<close>

theorem create_granted_displays_nothing:
  "fst (Push (modern_host GRANTED)) = supported_state
   \<and> snd (Permission_get (modern_host GRANTED) supported_state) = Inr GRANTED
   \<and> create (modern_host GRANTED) (JStr ''Hi'')
        (no_options\<lparr>body := JStr ''hello'', tag := JStr ''t1''\<rparr>) supported_state =
       (supported_state, Inr ())"
  unfolding Push_modern fst_conv
  by (simp add: create_def Permission_get_def
        Notification_permissionLevel_def Notification_permission_def webkit_checkPermission_def
        prog_defs host_defs)

section \<open>Lifecycle binding and icons (C5, C8)\<close>

text \<open>
  C5, at failing inputs. The notification object of Firefox Mobile, and the placeholder
  of the site-mode branch (reached when the host binds \<open>win\<close> to the window), have no
  \<open>addEventListener\<close>: a callable \<open>onShow\<close> or \<open>onClose\<close> makes the binding raise a
  TypeError. The \<open>timeout\<close> option, whose registration is guarded, is ignored silently
  on the same object.
\<close>

theorem bind_callbacks_raises_without_addEventListener:
  "create_callback moz_host (JStr ''Hi'') (no_options\<lparr>onShow := JFun 1\<rparr>) supported_state =
     (supported_state\<lparr>notification := Some moz_native, wrapper := True,
        trace := [Moz_createNotification (JStr ''Hi'') JUndefined JUndefined, Native_show]\<rparr>,
      Inl TypeError)
   \<and> create_callback site_mode_host_win (JStr ''Hi'') (no_options\<lparr>onClose := JFun 2\<rparr>) supported_state =
     (supported_state\<lparr>notification := Some empty_object, wrapper := True,
        trace := [Call_msIsSiteMode, SiteModeClearIconOverlay,
                  SiteModeSetIconOverlay JUndefined (JStr ''Hi''), SiteModeActivate]\<rparr>,
      Inl TypeError)
   \<and> create_callback moz_host (JStr ''Hi'') (no_options\<lparr>timeout := JNum 5000\<rparr>) supported_state =
     (supported_state\<lparr>notification := Some moz_native, wrapper := True,
        trace := [Moz_createNotification (JStr ''Hi'') JUndefined JUndefined, Native_show]\<rparr>,
      Inr ())"
  by (simp add: create_callback_defs call_msIsSiteMode_cases prog_defs host_defs)

text \<open>
  C8, at failing inputs. In site mode, with no global \<open>win\<close> in the host, the branch
  condition \<^verbatim>\<open>win.external && win.external.msIsSiteMode()\<close> raises a ReferenceError: no
  icon reaches the overlay. And the empty string is not passed through: \<open>isString\<close> is
  falsy on it, so \<open>undefined\<close> is passed. The other two runs show the behaviour the
  claim describes: \<open>x32\<close> under \<open>Notification\<close>, and \<open>x16\<close> in site mode once \<open>win\<close> is
  bound to the window.
\<close>

theorem display_site_mode_icon_unreached:
  "create_callback site_mode_host (JStr ''Hi'') (no_options\<lparr>icon := sized_icon\<rparr>) supported_state =
     (supported_state, Inl ReferenceError)
   \<and> create_callback (modern_host GRANTED) (JStr ''Hi'') (no_options\<lparr>icon := JStr ''''\<rparr>) supported_state =
     (supported_state\<lparr>notification := Some standard_native, wrapper := True,
        trace := [New_Notification (JStr ''Hi'') JUndefined JUndefined JUndefined]\<rparr>,
      Inr ())
   \<and> create_callback (modern_host GRANTED) (JStr ''Hi'') (no_options\<lparr>icon := sized_icon\<rparr>) supported_state =
     (supported_state\<lparr>notification := Some standard_native, wrapper := True,
        trace := [New_Notification (JStr ''Hi'') (JStr ''big.png'') JUndefined JUndefined]\<rparr>,
      Inr ())
   \<and> create_callback site_mode_host_win (JStr ''Hi'') (no_options\<lparr>icon := sized_icon\<rparr>) supported_state =
     (supported_state\<lparr>notification := Some empty_object, wrapper := True,
        trace := [Call_msIsSiteMode, SiteModeClearIconOverlay,
                  SiteModeSetIconOverlay (JStr ''small.png'') (JStr ''Hi''), SiteModeActivate]\<rparr>,
      Inr ())"
  by (simp add: create_callback_defs call_msIsSiteMode_cases sized_icon_def prog_defs host_defs)

end
